theory Spec2Isabelle
  imports Complex_Main "HOL-Library.Log_Nat"
begin

section \<open>Values of the host language\<close>

text \<open>
  A TypeScript \<^verbatim>\<open>number\<close> is an IEEE 754 binary64 number: \<open>Num r\<close> is the finite
  one of value \<open>r\<close>, beside the two infinities and \<^verbatim>\<open>NaN\<close> (the result of
  \<^verbatim>\<open>Number(undefined)\<close>). The two zeros are one value, \<open>Num 0\<close>: no operation
  here tells them apart. A \<open>Num r\<close> whose \<open>r\<close> is not a binary64 value stands for
  the nearest one, the way a decimal literal or a number read from JSON does;
  the arithmetic below rounds its operands first.
\<close>

datatype number = Num real | PosInf | NegInf | NaN

text \<open>\<^verbatim>\<open>if (n)\<close> on a number: \<^verbatim>\<open>0\<close> and \<^verbatim>\<open>NaN\<close> are the falsy ones.\<close>

fun truthy_number :: "number \<Rightarrow> bool" where
  "truthy_number (Num r) = (r \<noteq> 0)"
| "truthy_number NaN = False"
| "truthy_number _ = True"

text \<open>
  Rounding a real to binary64, to nearest and ties to even. \<open>exponent2 x\<close> is
  the exponent \<open>e\<close> of a positive \<open>x\<close>, with \<open>pow2 e \<le> x < pow2 (e + 1)\<close>,
  computed on integers; the spacing of the numbers there is \<open>pow2 (e - 52)\<close>.
  Below \<open>pow2 (- 1022)\<close> the spacing stays that of the subnormal numbers,
  \<open>pow2 (- 1074)\<close>; a result of magnitude \<open>pow2 1024\<close> or more is an infinity.
\<close>

definition round_half_even :: "real \<Rightarrow> int" where
  "round_half_even x =
     (let f = \<lfloor>x\<rfloor>; d = x - of_int f in
      if d < 1 / 2 then f
      else if 1 / 2 < d then f + 1
      else if even f then f else f + 1)"

definition pow2 :: "int \<Rightarrow> real" where
  "pow2 e = (if 0 \<le> e then 2 ^ nat e else 1 / 2 ^ nat (- e))"

definition exponent2 :: "real \<Rightarrow> int" where
  "exponent2 x = (if 1 \<le> x then bitlen \<lfloor>x\<rfloor> - 1 else - bitlen (\<lceil>1 / x\<rceil> - 1))"

definition binary64 :: "real \<Rightarrow> number" where
  "binary64 x =
     (if x = 0 then Num 0
      else
        (let e = max (exponent2 \<bar>x\<bar>) (- 1022);
             ulp = pow2 (e - 52);
             y = of_int (round_half_even (\<bar>x\<bar> / ulp)) * ulp
         in if pow2 1024 \<le> y then (if 0 < x then PosInf else NegInf)
            else Num (if 0 < x then y else - y)))"

text \<open>
  \<^verbatim>\<open>a * b\<close>: the exact product of two finite operands, rounded; \<^verbatim>\<open>NaN\<close> when
  an operand is \<^verbatim>\<open>NaN\<close> or the product is of zero and an infinity; otherwise
  the infinity of the product of the signs.
\<close>

definition infinity_signed :: "real \<Rightarrow> number" where
  "infinity_signed s = (if s = 0 then NaN else if 0 < s then PosInf else NegInf)"

fun sign :: "number \<Rightarrow> real" where
  "sign (Num a) = sgn a"
| "sign PosInf = 1"
| "sign NegInf = - 1"
| "sign NaN = 0"

fun times64 :: "number \<Rightarrow> number \<Rightarrow> number" where
  "times64 (Num a) (Num b) = binary64 (a * b)"
| "times64 NaN v = NaN"
| "times64 u NaN = NaN"
| "times64 u v = infinity_signed (sign u * sign v)"

fun to_binary64 :: "number \<Rightarrow> number" where
  "to_binary64 (Num a) = binary64 a"
| "to_binary64 n = n"

definition js_times :: "number \<Rightarrow> number \<Rightarrow> number" where
  "js_times x y = times64 (to_binary64 x) (to_binary64 y)"

text \<open>\<^verbatim>\<open>Number(x)\<close> for \<^verbatim>\<open>x: number | undefined\<close>.\<close>

fun Number :: "number option \<Rightarrow> number" where
  "Number None = NaN"
| "Number (Some n) = n"

text \<open>
  A value of type \<^verbatim>\<open>T | null | undefined\<close>, kept three-valued because
  \<^verbatim>\<open>===\<close> tells \<^verbatim>\<open>null\<close> from \<^verbatim>\<open>undefined\<close>.
\<close>

datatype 'a js = Undefined | Null | Val 'a

text \<open>\<^verbatim>\<open>if (s)\<close> on a \<^verbatim>\<open>string | null | undefined\<close>: only a non-empty string passes.\<close>

fun truthy_string :: "string js \<Rightarrow> bool" where
  "truthy_string (Val s) = (s \<noteq> [])"
| "truthy_string _ = False"

text \<open>
  \<^verbatim>\<open>a === b\<close> between a \<^verbatim>\<open>string | null | undefined\<close> and an optional string
  field (\<^verbatim>\<open>string | undefined\<close>, \<open>None\<close> the missing field).
\<close>

fun strict_eq :: "string js \<Rightarrow> string option \<Rightarrow> bool" where
  "strict_eq (Val s) (Some t) = (s = t)"
| "strict_eq Undefined None = True"
| "strict_eq _ _ = False"

text \<open>
  \<^verbatim>\<open>s.toLowerCase()\<close> on the letters \<^verbatim>\<open>A\<close> to \<^verbatim>\<open>Z\<close>; every other
  character of the string is kept as it is.
\<close>

definition lower_char :: "char \<Rightarrow> char" where
  "lower_char c =
     (let n = of_char c :: nat in if 65 \<le> n \<and> n \<le> 90 then char_of (n + 32) else c)"

definition toLowerCase :: "string \<Rightarrow> string" where
  "toLowerCase s = map lower_char s"

text \<open>What a failing evaluation throws.\<close>

datatype failure = TypeError

section \<open>Data model\<close>

text \<open>
  The enum \<^verbatim>\<open>Unit\<close> is declared in \<^verbatim>\<open>TimerSetter\<close>, which is not among the
  sources; the code names its members \<^verbatim>\<open>Unit.Minutes\<close> and \<^verbatim>\<open>Unit.Seconds\<close>.
  What a member is at run time (a string, a number) is not visible, so whether
  \<^verbatim>\<open>u || d\<close> keeps \<^verbatim>\<open>u\<close> is a parameter \<open>unit_truthy\<close> of the functions that
  test a unit.
\<close>

datatype Unit = Minutes | Seconds

text \<open>\<^verbatim>\<open>Stance\<close> of \<^verbatim>\<open>SpeakerFeed\<close>, by the members the buttons use.\<close>

datatype Stance = For | Neutral | Against

record SpeakerEvent =
  who :: string
  stance :: Stance
  duration :: number

datatype CaucusStatus = Open | Closed

text \<open>
  \<^verbatim>\<open>TimerData\<close> is declared in \<^verbatim>\<open>Timer\<close>, not among the sources. The only field the
  code names is \<^verbatim>\<open>remaining\<close>; the others live in the extension of the record.
\<close>

record TimerData =
  remaining :: number

type_synonym CaucusID = string

type_synonym CommitteeID = string

type_synonym MemberID = string

datatype Rank = Veto | Standard | NGO | Observer

record MemberData =
  name :: string
  present :: bool
  rank :: Rank
  voting :: bool
  frozen :: bool
  authToken :: "string option"

text \<open>
  \<^verbatim>\<open>MemberOption\<close> of \<^verbatim>\<open>constants\<close>, with the fields \<^verbatim>\<open>nameToMemberOption\<close>
  builds: \<^verbatim>\<open>key\<close>, \<^verbatim>\<open>value\<close>, \<^verbatim>\<open>flag\<close>, \<^verbatim>\<open>text\<close>.
\<close>

record MemberOption =
  key :: string
  option_value :: string
  flag :: string
  option_text :: string

text \<open>
  The state of the \<^verbatim>\<open>Caucus\<close> component. \<^verbatim>\<open>CommitteeData\<close> is declared in
  \<^verbatim>\<open>Committee\<close>, not among the sources: it is the type parameter \<open>'c\<close>. The
  database reference \<^verbatim>\<open>committeeFref\<close> is left out.
\<close>

record ('c, 't) CaucusState =
  speakerTimer :: "'t TimerData_scheme"
  caucusTimer :: "'t TimerData_scheme"
  committee :: "'c option"
  loading :: bool
  isOwner :: bool

record 't CaucusData =
  name :: string
  topic :: string
  status :: CaucusStatus
  speakerTimer :: "'t TimerData_scheme"
  speakerDuration :: "number option"
  speakerUnit :: "Unit option"
  caucusTimer :: "'t TimerData_scheme"
  queueIsPublic :: "bool option"
  speaking :: "SpeakerEvent option"
  queue :: "(string \<rightharpoonup> SpeakerEvent) option"
  history :: "(string \<rightharpoonup> SpeakerEvent) option"

section \<open>Recovering the speaker unit and duration\<close>

text \<open>
  \<^verbatim>\<open>caucus ? (caucus.speakerUnit || Unit.Seconds) : Unit.Seconds\<close>.
  A caucus object is truthy; a missing one is \<open>None\<close>.
\<close>

definition recoverUnit :: "(Unit \<Rightarrow> bool) \<Rightarrow> 't CaucusData option \<Rightarrow> Unit" where
  "recoverUnit unit_truthy caucus =
     (case caucus of
        None \<Rightarrow> Seconds
      | Some c \<Rightarrow>
          (case speakerUnit c of
             None \<Rightarrow> Seconds
           | Some u \<Rightarrow> if unit_truthy u then u else Seconds))"

text \<open>
  \<^verbatim>\<open>caucus ? caucus.speakerDuration ? caucus.speakerDuration : undefined : undefined\<close>.
\<close>

definition recoverDuration :: "'t CaucusData option \<Rightarrow> number option" where
  "recoverDuration caucus =
     (case caucus of
        None \<Rightarrow> None
      | Some c \<Rightarrow>
          (case speakerDuration c of
             None \<Rightarrow> None
           | Some d \<Rightarrow> if truthy_number d then Some d else None))"

section \<open>The default caucus\<close>

definition DEFAULT_CAUCUS_TIME_SECONDS :: number where
  "DEFAULT_CAUCUS_TIME_SECONDS = js_times (Num 10) (Num 60)"

definition DEFAULT_SPEAKER_TIME_SECONDS :: number where
  "DEFAULT_SPEAKER_TIME_SECONDS = js_times (Num 1) (Num 60)"

text \<open>
  \<^verbatim>\<open>DEFAULT_TIMER\<close> is exported by \<^verbatim>\<open>Timer\<close>, not among the sources: it is a
  parameter. \<^verbatim>\<open>{ ...DEFAULT_TIMER, remaining: r }\<close> is the record update.
\<close>

definition DEFAULT_CAUCUS :: "'t TimerData_scheme \<Rightarrow> 't CaucusData" where
  "DEFAULT_CAUCUS DEFAULT_TIMER =
     \<lparr> name = ''untitled caucus'',
       topic = [],
       status = Open,
       speakerTimer = DEFAULT_TIMER\<lparr>remaining := DEFAULT_SPEAKER_TIME_SECONDS\<rparr>,
       speakerDuration = Some DEFAULT_SPEAKER_TIME_SECONDS,
       speakerUnit = Some Seconds,
       caucusTimer = DEFAULT_TIMER\<lparr>remaining := DEFAULT_CAUCUS_TIME_SECONDS\<rparr>,
       queueIsPublic = Some False,
       speaking = None,
       queue = Some Map.empty,
       history = Some Map.empty \<rparr>"

section \<open>The queuer: \<^verbatim>\<open>getNation\<close> and \<^verbatim>\<open>setStance\<close>\<close>

text \<open>
  The props of \<^verbatim>\<open>CaucusQueuer\<close>; what is written through \<^verbatim>\<open>caucusFref\<close> is the
  result of the handler below.
\<close>

record 't QueuerProps =
  caucus :: "'t CaucusData option"
  members :: "(MemberID \<rightharpoonup> MemberData) option"

text \<open>
  \<^verbatim>\<open>getCookie\<close> (of \<^verbatim>\<open>cookie\<close>) and \<^verbatim>\<open>getID\<close> (of \<^verbatim>\<open>utils\<close>) are not among the
  sources: both are parameters. \<open>getCookie\<close> is the cookie state, from a cookie's
  name to its value, \<^verbatim>\<open>null\<close> or \<^verbatim>\<open>undefined\<close>. \<open>getID\<close> gives the
  property key \<^verbatim>\<open>members[id]\<close> reads, whatever value it returns being turned
  into a key by the indexing. \<^verbatim>\<open>members[id]\<close> of a key the record does not
  have is \<^verbatim>\<open>undefined\<close>, and reading \<^verbatim>\<open>.authToken\<close> of it throws a
  \<^verbatim>\<open>TypeError\<close>. The record is the map of its own properties: what it inherits
  from \<^verbatim>\<open>Object.prototype\<close> is not modelled. A record, even the empty one, is
  truthy, so past the first test \<^verbatim>\<open>props.members || {}\<close> is \<^verbatim>\<open>props.members\<close>
  itself.
\<close>

definition getNation ::
  "((MemberID \<rightharpoonup> MemberData) \<Rightarrow> string \<Rightarrow> MemberID) \<Rightarrow> (string \<Rightarrow> string js) \<Rightarrow>
   't QueuerProps \<Rightarrow> failure + MemberData option" where
  "getNation getID getCookie props =
     (case members props of
        None \<Rightarrow> Inr None
      | Some ms \<Rightarrow>
          (let nation = getCookie ''nation'' in
           if truthy_string nation then
             (case nation of
                Val n \<Rightarrow>
                  (let token = getCookie ''authToken'';
                       id = getID ms n
                   in case ms id of
                        None \<Rightarrow> Inl TypeError
                      | Some m \<Rightarrow>
                          if strict_eq token (authToken m) then Inr (Some m) else Inr None)
              | _ \<Rightarrow> Inr None)
           else Inr None))"

text \<open>
  A write through the reference of the caucus:
  \<^verbatim>\<open>caucusFref.child(path).push().set(event)\<close>.
\<close>

datatype db_write = PushSet string SpeakerEvent

text \<open>
  \<^verbatim>\<open>setStance(stance)()\<close>, the click handler of the three buttons, with the
  component's state \<^verbatim>\<open>queueMember\<close> (a member option object is truthy). It
  returns the writes it issues, in order.
\<close>

definition setStance ::
  "(Unit \<Rightarrow> bool) \<Rightarrow> Stance \<Rightarrow> 't QueuerProps \<Rightarrow> MemberOption option \<Rightarrow> db_write list" where
  "setStance unit_truthy stance' props queueMember =
     (let duration' = Number (recoverDuration (caucus props)) in
      if truthy_number duration' then
        (case queueMember of
           None \<Rightarrow> []
         | Some qm \<Rightarrow>
             [PushSet ''queue''
                \<lparr> who = option_text qm,
                  stance = stance',
                  duration =
                    (if recoverUnit unit_truthy (caucus props) = Minutes
                     then js_times duration' (Num 60) else duration') \<rparr>])
      else [])"

section \<open>The login component\<close>

datatype Mode = Login | CreateAccount | ForgotPassword

text \<open>\<^verbatim>\<open>firebase.User\<close>, by the field the callback reads.\<close>

record User =
  uid :: string

text \<open>
  The state of \<^verbatim>\<open>Login\<close>, without the \<^verbatim>\<open>unsubscribe\<close> handle; an error or a
  success notice is its name and message.
\<close>

record 'c LoginState =
  user :: "User js"
  email :: string
  password :: string
  error :: "(string \<times> string) option"
  success :: "(string option \<times> string option) option"
  loggingIn :: bool
  creating :: bool
  mode :: Mode
  resetting :: bool
  committees :: "(CommitteeID \<rightharpoonup> 'c) option"

definition initial_LoginState :: "'c LoginState" where
  "initial_LoginState =
     \<lparr> user = Undefined, email = [], password = [], error = None, success = None,
       loggingIn = False, creating = False, mode = Login, resetting = False,
       committees = None \<rparr>"

text \<open>
  \<^verbatim>\<open>authStateChangedCallback\<close>, with the promise of the query resolved:
  \<open>query uid\<close> is \<^verbatim>\<open>committees.val()\<close> of the snapshot of the committees whose
  \<^verbatim>\<open>creatorUid\<close> is \<open>uid\<close>, \<open>None\<close> when the database has no value there.
  A record of committees is truthy, so \<^verbatim>\<open>val || {}\<close> replaces only the missing
  value.
\<close>

definition authStateChangedCallback ::
  "(string \<Rightarrow> (CommitteeID \<rightharpoonup> 'c) option) \<Rightarrow> User option \<Rightarrow> 'c LoginState \<Rightarrow> 'c LoginState" where
  "authStateChangedCallback query u s =
     (let s1 = s\<lparr> loggingIn := False, creating := False,
                  user := (case u of None \<Rightarrow> Null | Some x \<Rightarrow> Val x) \<rparr>
      in case u of
           None \<Rightarrow> s1
         | Some x \<Rightarrow>
             s1\<lparr> committees :=
                   Some (case query (uid x) of None \<Rightarrow> Map.empty | Some r \<Rightarrow> r) \<rparr>)"

section \<open>Rendering the caucus component\<close>

text \<open>
  What \<^verbatim>\<open>render\<close> returns: the not-found notice for an item and an id, or the
  view \<^verbatim>\<open>renderCaucus(caucus)\<close> builds.
\<close>

datatype 't view = NotFound string CaucusID | renderCaucus "'t CaucusData option"

text \<open>
  \<^verbatim>\<open>recoverCaucus\<close> is exported by \<^verbatim>\<open>Committee\<close>, not among the sources: it is a
  parameter. \<open>caucusID\<close> is \<^verbatim>\<open>this.props.match.params.caucusID\<close>.
\<close>

definition render ::
  "('c option \<Rightarrow> CaucusID \<Rightarrow> 't CaucusData option) \<Rightarrow> ('c, 't) CaucusState \<Rightarrow> CaucusID \<Rightarrow>
   't view" where
  "render recoverCaucus st caucusID =
     (let caucus' = recoverCaucus (committee st) caucusID in
      if \<not> loading st \<and> caucus' = None then NotFound ''caucus'' caucusID
      else renderCaucus caucus')"

section \<open>Flag names\<close>

text \<open>
  \<^verbatim>\<open>COUNTRY_OPTIONS\<close> is a table of \<^verbatim>\<open>constants\<close>, not among the sources: it is a
  parameter.
\<close>

definition FLAG_NAME_SET :: "MemberOption list \<Rightarrow> string set" where
  "FLAG_NAME_SET COUNTRY_OPTIONS = set (map option_text COUNTRY_OPTIONS)"

definition parseFlagName :: "MemberOption list \<Rightarrow> string \<Rightarrow> string" where
  "parseFlagName COUNTRY_OPTIONS nm =
     (if nm \<in> FLAG_NAME_SET COUNTRY_OPTIONS then toLowerCase nm else ''fm'')"

section \<open>Example inputs\<close>

text \<open>A caucus with a given stored speaker duration and unit, over a timer with no other field.\<close>

definition example_caucus :: "number \<Rightarrow> Unit \<Rightarrow> unit CaucusData" where
  "example_caucus d u =
     (DEFAULT_CAUCUS \<lparr>remaining = Num 0\<rparr>)\<lparr>speakerDuration := Some d, speakerUnit := Some u\<rparr>"

definition france_option :: MemberOption where
  "france_option =
     \<lparr> key = ''France'', option_value = ''France'', flag = ''france'',
       option_text = ''France'' \<rparr>"

definition france_member :: MemberData where
  "france_member =
     \<lparr> MemberData.name = ''France'', present = True, rank = Standard, voting = True,
       frozen = False, authToken = Some ''s3cret'' \<rparr>"

text \<open>Cookie states: only the nation cookie set, and both cookies set.\<close>

definition nation_cookie_only :: "string \<Rightarrow> string js" where
  "nation_cookie_only c = (if c = ''nation'' then Val ''France'' else Undefined)"

definition both_cookies :: "string \<Rightarrow> string js" where
  "both_cookies c =
     (if c = ''nation'' then Val ''France''
      else if c = ''authToken'' then Val ''s3cret'' else Undefined)"

text \<open>The state of the caucus component before and after the committee has arrived.\<close>

definition example_state :: "bool \<Rightarrow> (unit CaucusData, unit) CaucusState" where
  "example_state l =
     \<lparr> CaucusState.speakerTimer = \<lparr>remaining = Num 60\<rparr>,
       CaucusState.caucusTimer = \<lparr>remaining = Num 600\<rparr>,
       committee = None, loading = l, isOwner = False \<rparr>"

section \<open>Properties\<close>

subsection \<open>The arithmetic\<close>

text \<open>Powers of two, and the exponent the rounding takes.\<close>

lemma pow2_powi: "pow2 e = 2 powi e"
  by (simp add: pow2_def power_int_def inverse_eq_divide power_one_over)

lemma pow2_pos: "0 < pow2 e"
  by (simp add: pow2_def)

lemma pow2_mono: "a \<le> b \<Longrightarrow> pow2 a \<le> pow2 b"
  by (simp add: pow2_powi power_int_increasing)

lemma pow2_add: "pow2 (a + b) = pow2 a * pow2 b"
  by (simp add: pow2_powi power_int_add)

lemma pow2_nonneg: "0 \<le> e \<Longrightarrow> pow2 e = 2 ^ nat e"
  by (simp add: pow2_def)

lemma pow2_neg: "e \<le> 0 \<Longrightarrow> pow2 e = 1 / 2 ^ nat (- e)"
  by (cases "e = 0") (simp_all add: pow2_def)

lemma bitlen_ge1: "0 < n \<Longrightarrow> 1 \<le> bitlen n"
  by (auto simp: bitlen_alt_def)

lemma exponent2_bounds_ge1:
  assumes "1 \<le> x"
  shows "pow2 (bitlen \<lfloor>x\<rfloor> - 1) \<le> x \<and> x < pow2 (bitlen \<lfloor>x\<rfloor>)"
proof -
  define n where "n = \<lfloor>x\<rfloor>"
  define k where "k = bitlen n"
  have n: "0 < n" using assms by (simp add: n_def)
  have k: "1 \<le> k" unfolding k_def using n by (rule bitlen_ge1)
  from bitlen_bounds [OF n] have lo: "2 ^ nat (k - 1) \<le> n" and hi: "n < 2 ^ nat k"
    by (simp_all add: k_def)
  have "real_of_int (2 ^ nat (k - 1)) \<le> real_of_int n" using lo by (simp only: of_int_le_iff)
  then have "2 ^ nat (k - 1) \<le> real_of_int n" by (simp only: of_int_power of_int_numeral)
  moreover have "real_of_int n \<le> x" by (simp add: n_def)
  ultimately have "2 ^ nat (k - 1) \<le> x" by linarith
  then have 1: "pow2 (k - 1) \<le> x" using k by (simp add: pow2_nonneg)
  have "n + 1 \<le> 2 ^ nat k" using hi by simp
  then have "real_of_int (n + 1) \<le> real_of_int (2 ^ nat k)" by (simp only: of_int_le_iff)
  then have "real_of_int (n + 1) \<le> 2 ^ nat k" by (simp only: of_int_power of_int_numeral)
  moreover have "x < real_of_int (n + 1)" by (simp add: n_def)
  ultimately have "x < 2 ^ nat k" by linarith
  then have 2: "x < pow2 k" using k by (simp add: pow2_nonneg)
  from 1 2 show ?thesis by (simp add: k_def n_def)
qed

lemma exponent2_bounds_lt1:
  assumes "0 < x" and "x < 1"
  shows "pow2 (- bitlen (\<lceil>1 / x\<rceil> - 1)) \<le> x
         \<and> x < pow2 (- bitlen (\<lceil>1 / x\<rceil> - 1) + 1)"
proof -
  define c where "c = \<lceil>1 / x\<rceil>"
  define k where "k = bitlen (c - 1)"
  have y: "1 < 1 / x" using assms by simp
  then have "2 \<le> c" by (simp add: c_def le_ceiling_iff)
  then have n: "0 < c - 1" by simp
  have k: "1 \<le> k" unfolding k_def using n by (rule bitlen_ge1)
  from bitlen_bounds [OF n] have lo: "2 ^ nat (k - 1) \<le> c - 1" and hi: "c - 1 < 2 ^ nat k"
    by (simp_all add: k_def)
  have "c \<le> 2 ^ nat k" using hi by simp
  then have "real_of_int c \<le> real_of_int (2 ^ nat k)" by (simp only: of_int_le_iff)
  then have "real_of_int c \<le> 2 ^ nat k" by (simp only: of_int_power of_int_numeral)
  moreover have "1 / x \<le> real_of_int c" by (simp add: c_def)
  ultimately have a: "1 / x \<le> 2 ^ nat k" by linarith
  have p: "(0::real) < 2 ^ nat k" by simp
  from a assms(1) p have "1 / 2 ^ nat k \<le> x"
    by (simp add: field_simps)
  then have 1: "pow2 (- k) \<le> x" using k by (simp add: pow2_neg)
  have "real_of_int (2 ^ nat (k - 1)) \<le> real_of_int (c - 1)"
    using lo by (simp only: of_int_le_iff)
  then have "2 ^ nat (k - 1) \<le> real_of_int (c - 1)"
    by (simp only: of_int_power of_int_numeral)
  moreover have "real_of_int (c - 1) < 1 / x" unfolding c_def by linarith
  ultimately have b: "2 ^ nat (k - 1) < 1 / x" by linarith
  have q: "(0::real) < 2 ^ nat (k - 1)" by simp
  from b assms(1) q have "x < 1 / 2 ^ nat (k - 1)"
    by (simp add: field_simps)
  moreover have "nat (- (- k + 1)) = nat (k - 1)" by simp
  ultimately have 2: "x < pow2 (- k + 1)" using k by (simp add: pow2_neg)
  from 1 2 show ?thesis by (simp add: k_def c_def)
qed

lemma exponent2_bounds:
  assumes "0 < x"
  shows "pow2 (exponent2 x) \<le> x \<and> x < pow2 (exponent2 x + 1)"
proof (cases "1 \<le> x")
  case True
  with exponent2_bounds_ge1 [OF True] show ?thesis by (simp add: exponent2_def)
next
  case False
  then have "x < 1" by simp
  from exponent2_bounds_lt1 [OF assms this] False show ?thesis by (simp add: exponent2_def)
qed

lemma exponent2_unique:
  assumes "pow2 e \<le> x" and "x < pow2 (e + 1)"
  shows "exponent2 x = e"
proof -
  have x: "0 < x" using assms(1) pow2_pos [of e] by linarith
  note b = exponent2_bounds [OF x]
  have "\<not> exponent2 x < e"
  proof
    assume "exponent2 x < e"
    then have "pow2 (exponent2 x + 1) \<le> pow2 e" by (simp add: pow2_mono)
    with b assms show False by linarith
  qed
  moreover have "\<not> e < exponent2 x"
  proof
    assume "e < exponent2 x"
    then have "pow2 (e + 1) \<le> pow2 (exponent2 x)" by (simp add: pow2_mono)
    with b assms show False by linarith
  qed
  ultimately show ?thesis by linarith
qed

text \<open>The exponent is the floor of the binary logarithm.\<close>

lemma exponent2_floor_log:
  assumes "0 < x"
  shows "exponent2 x = \<lfloor>log 2 x\<rfloor>"
proof -
  have p: "pow2 k = 2 powr real_of_int k" for k
    by (simp add: pow2_powi powr_real_of_int')
  from exponent2_bounds [OF assms]
  have "2 powr real_of_int (exponent2 x) \<le> x" and "x < 2 powr (real_of_int (exponent2 x) + 1)"
    by (simp_all add: p)
  then show ?thesis
    using floor_log_eq_powr_iff [of x 2 "exponent2 x"] assms by simp
qed

lemma floor_le_round_half_even: "\<lfloor>x\<rfloor> \<le> round_half_even x"
  by (simp add: round_half_even_def Let_def)

lemma round_half_even_of_int: "round_half_even (real_of_int k) = k"
  by (simp add: round_half_even_def)

text \<open>
  The rounding of a positive real in the normal range, from its exponent and
  the rounded significand.
\<close>

lemma binary64_normal:
  assumes "pow2 e \<le> x" and "x < pow2 (e + 1)" and "- 1022 \<le> e"
    and "round_half_even (x / pow2 (e - 52)) = m"
    and "real_of_int m * pow2 (e - 52) < pow2 1024"
  shows "binary64 x = Num (real_of_int m * pow2 (e - 52))"
proof -
  have x: "0 < x" using assms(1) pow2_pos [of e] by linarith
  then have "exponent2 \<bar>x\<bar> = e" using assms(1,2) by (simp add: exponent2_unique)
  with x assms(3,4,5) show ?thesis
    by (simp add: binary64_def Let_def max_def)
qed

text \<open>From \<open>2 ^ 1024\<close> on, every real rounds to the infinity.\<close>

lemma binary64_overflow:
  assumes "pow2 1024 \<le> x"
  shows "binary64 x = PosInf"
proof -
  have x: "0 < x" using assms pow2_pos [of 1024] by linarith
  define e where "e = exponent2 x"
  from exponent2_bounds [OF x] have lo: "pow2 e \<le> x" and hi: "x < pow2 (e + 1)"
    by (simp_all add: e_def)
  have e: "1024 \<le> e"
  proof (rule ccontr)
    assume "\<not> 1024 \<le> e"
    then have "pow2 (e + 1) \<le> pow2 1024" by (simp add: pow2_mono)
    with hi assms show False by linarith
  qed
  define ulp where "ulp = pow2 (e - 52)"
  have ulp: "0 < ulp" by (simp add: ulp_def pow2_pos)
  have split: "pow2 e = pow2 52 * ulp"
    using pow2_add [of 52 "e - 52"] by (simp add: ulp_def)
  have "pow2 52 * ulp \<le> x" using lo split by simp
  then have "pow2 52 \<le> x / ulp" using ulp by (simp add: pos_le_divide_eq)
  then have "real_of_int (2 ^ 52) \<le> x / ulp" by (simp add: pow2_def)
  then have "2 ^ 52 \<le> \<lfloor>x / ulp\<rfloor>" by (simp only: le_floor_iff)
  also have "\<dots> \<le> round_half_even (x / ulp)" by (rule floor_le_round_half_even)
  finally have "real_of_int (2 ^ 52) \<le> real_of_int (round_half_even (x / ulp))"
    by (simp only: of_int_le_iff)
  then have "pow2 52 \<le> real_of_int (round_half_even (x / ulp))" by (simp add: pow2_def)
  then have "pow2 52 * ulp \<le> real_of_int (round_half_even (x / ulp)) * ulp"
    using ulp by (simp only: mult_le_cancel_right_pos)
  then have "pow2 e \<le> real_of_int (round_half_even (x / ulp)) * ulp" by (simp only: split)
  moreover have "pow2 1024 \<le> pow2 e" using e by (rule pow2_mono)
  ultimately have "pow2 1024 \<le> real_of_int (round_half_even (x / ulp)) * ulp" by linarith
  moreover have "max (exponent2 \<bar>x\<bar>) (- 1022) = e" using x e by (simp add: e_def)
  ultimately show ?thesis using x
    by (simp add: binary64_def Let_def ulp_def)
qed

text \<open>A positive integer below \<open>2 ^ 53\<close> is a binary64 number.\<close>

lemma binary64_of_int:
  assumes "0 < n" and "n < 2 ^ 53"
  shows "binary64 (real_of_int n) = Num (real_of_int n)"
proof -
  define x where "x = real_of_int n"
  have x: "0 < x" "1 \<le> x" using assms(1) by (simp_all add: x_def)
  define e where "e = exponent2 x"
  from exponent2_bounds [OF x(1)] have lo: "pow2 e \<le> x" and hi: "x < pow2 (e + 1)"
    by (simp_all add: e_def)
  have e0: "0 \<le> e"
  proof (rule ccontr)
    assume "\<not> 0 \<le> e"
    then have "pow2 (e + 1) \<le> pow2 0" by (simp add: pow2_mono)
    with hi x(2) show False by (simp add: pow2_def)
  qed
  have "real_of_int n < real_of_int (2 ^ 53)" using assms(2) by (simp only: of_int_less_iff)
  then have x53: "x < pow2 53" by (simp add: x_def pow2_def)
  have e52: "e \<le> 52"
  proof (rule ccontr)
    assume "\<not> e \<le> 52"
    then have "pow2 53 \<le> pow2 e" by (simp add: pow2_mono)
    with lo x53 show False by linarith
  qed
  define k where "k = nat (52 - e)"
  have ulp: "pow2 (e - 52) = 1 / 2 ^ k"
    using e52 by (simp add: pow2_neg k_def)
  have q: "x / pow2 (e - 52) = real_of_int (n * 2 ^ k)"
    by (simp add: ulp x_def)
  have r: "round_half_even (x / pow2 (e - 52)) = n * 2 ^ k"
    by (simp only: q round_half_even_of_int)
  have y: "real_of_int (n * 2 ^ k) * pow2 (e - 52) = x"
    by (simp add: ulp x_def)
  have "pow2 53 \<le> pow2 1024" by (rule pow2_mono) simp
  with x53 have "real_of_int (n * 2 ^ k) * pow2 (e - 52) < pow2 1024"
    by (simp only: y)
  from binary64_normal [OF lo hi _ r this] e0 show ?thesis
    by (simp only: y) (simp add: x_def)
qed

lemma binary64_1: "binary64 1 = Num 1"
  using binary64_of_int [of 1] by simp

lemma binary64_2: "binary64 2 = Num 2"
  using binary64_of_int [of 2] by simp

lemma binary64_10: "binary64 10 = Num 10"
  using binary64_of_int [of 10] by simp

lemma binary64_60: "binary64 60 = Num 60"
  using binary64_of_int [of 60] by simp

lemma binary64_120: "binary64 120 = Num 120"
  using binary64_of_int [of 120] by simp

lemma binary64_600: "binary64 600 = Num 600"
  using binary64_of_int [of 600] by simp

text \<open>
  A whole number of minutes is converted exactly: \<open>n * 60\<close> for \<open>n\<close> below
  \<open>2 ^ 47\<close>.
\<close>

lemma js_times_whole_minutes:
  assumes "0 < n" and "n < 2 ^ 47"
  shows "js_times (Num (real_of_int n)) (Num 60) = Num (real_of_int (n * 60))"
proof -
  have a: "binary64 (real_of_int n) = Num (real_of_int n)"
    using assms by (intro binary64_of_int) simp_all
  have "n * 60 < 2 ^ 47 * 2 ^ 6" using assms by simp
  then have "n * 60 < 2 ^ 53" by simp
  then have b: "binary64 (real_of_int (n * 60)) = Num (real_of_int (n * 60))"
    using assms(1) by (intro binary64_of_int) simp_all
  have c: "real_of_int n * 60 = real_of_int (n * 60)" by simp
  show ?thesis
    by (simp only: js_times_def to_binary64.simps a binary64_60 times64.simps c b)
qed

lemma js_times_2_60: "js_times (Num 2) (Num 60) = Num 120"
  by (simp add: js_times_def binary64_2 binary64_60 binary64_120)

text \<open>
  The product is rounded: the number \<^verbatim>\<open>8.2\<close> is \<open>2308094809027379 / 2 ^ 48\<close>, and
  \<^verbatim>\<open>8.2 * 60\<close> is \<^verbatim>\<open>491.99999999999994\<close>, that is \<open>8655355533852671 / 2 ^ 44\<close>,
  below 492.
\<close>

lemma binary64_8_2: "binary64 8.2 = Num (2308094809027379 / 281474976710656)"
  using binary64_normal [of 3 "8.2" 4616189618054758]
  by (simp add: pow2_def round_half_even_def)

lemma binary64_8_2_times_60:
  "binary64 (2308094809027379 / 281474976710656 * 60) = Num (8655355533852671 / 17592186044416)"
  using binary64_normal [of 8 "2308094809027379 / 281474976710656 * 60" 8655355533852671]
  by (simp add: pow2_def round_half_even_def)

lemma js_times_rounds:
  "js_times (Num 8.2) (Num 60) = Num (8655355533852671 / 17592186044416)"
  by (simp only: js_times_def to_binary64.simps times64.simps binary64_8_2 binary64_60
        binary64_8_2_times_60)

lemma js_times_rounds_below: "(8655355533852671 / 17592186044416 :: real) < 492"
  by simp

text \<open>The product overflows: \<^verbatim>\<open>1e308 * 60\<close> is \<^verbatim>\<open>Infinity\<close>.\<close>

lemma binary64_1e308: "binary64 (10 ^ 308) = Num (5010420900022432 * 2 ^ 971)"
  using binary64_normal [of 1023 "10 ^ 308" 5010420900022432]
  by (simp add: pow2_def round_half_even_def)

lemma js_times_overflows: "js_times (Num (10 ^ 308)) (Num 60) = PosInf"
proof -
  have "pow2 1024 \<le> 5010420900022432 * 2 ^ 971 * 60" by (simp add: pow2_def)
  then have "binary64 (5010420900022432 * 2 ^ 971 * 60) = PosInf" by (rule binary64_overflow)
  then show ?thesis
    by (simp only: js_times_def to_binary64.simps times64.simps binary64_1e308 binary64_60)
qed

text \<open>The two module constants.\<close>

lemma DEFAULT_SPEAKER_TIME_SECONDS_value: "DEFAULT_SPEAKER_TIME_SECONDS = Num 60"
  by (simp add: DEFAULT_SPEAKER_TIME_SECONDS_def js_times_def binary64_1 binary64_60)

lemma DEFAULT_CAUCUS_TIME_SECONDS_value: "DEFAULT_CAUCUS_TIME_SECONDS = Num 600"
  by (simp add: DEFAULT_CAUCUS_TIME_SECONDS_def js_times_def binary64_10 binary64_60
        binary64_600)

subsection \<open>Recovery of the unit and the duration\<close>

text \<open>
  C1: for every caucus input, a missing one included, \<open>recoverUnit\<close> returns the
  stored \<open>speakerUnit\<close> when the caucus is there and has the field, and
  \<open>Seconds\<close> when the caucus or the field is missing. The enum's declaration is
  not among the sources: the statement asks that \<open>Minutes\<close> is not a falsy value.
\<close>

theorem recoverUnit_stored_or_Seconds:
  assumes "unit_truthy Minutes"
  shows "recoverUnit unit_truthy cau =
           (case cau of
              None \<Rightarrow> Seconds
            | Some c \<Rightarrow> (case speakerUnit c of None \<Rightarrow> Seconds | Some u \<Rightarrow> u))"
proof (cases cau)
  case None
  then show ?thesis by (simp add: recoverUnit_def)
next
  case (Some c)
  show ?thesis
  proof (cases "speakerUnit c")
    case None
    with Some show ?thesis by (simp add: recoverUnit_def)
  next
    case (Some u)
    with \<open>cau = Some c\<close> assms show ?thesis
      by (cases u) (simp_all add: recoverUnit_def)
  qed
qed

text \<open>C1 at a caucus that stores \<open>Minutes\<close>, every member of the enum truthy.\<close>

theorem recoverUnit_stored_or_Seconds_witness:
  "recoverUnit (\<lambda>u. True) (Some (example_caucus (Num 2) Minutes)) = Minutes"
  using recoverUnit_stored_or_Seconds [of "\<lambda>u. True" "Some (example_caucus (Num 2) Minutes)"]
  by (simp add: example_caucus_def)

text \<open>
  C2 as stated fails: a caucus whose \<open>speakerDuration\<close> field is present and holds
  \<open>0\<close> gets \<^verbatim>\<open>undefined\<close>, not the stored \<open>0\<close>.
\<close>

theorem recoverDuration_zero_counterexample:
  "speakerDuration (example_caucus (Num 0) Seconds) = Some (Num 0)
   \<and> recoverDuration (Some (example_caucus (Num 0) Seconds)) = None"
  by (simp add: recoverDuration_def example_caucus_def)

text \<open>
  C2, amended: \<open>recoverDuration\<close> returns the stored \<open>speakerDuration\<close> when the
  caucus is there and the field holds a value other than \<open>0\<close> and \<^verbatim>\<open>NaN\<close>; it
  returns \<^verbatim>\<open>undefined\<close> when the caucus is missing, the field is missing, or the
  stored value is \<open>0\<close> or \<^verbatim>\<open>NaN\<close>.
\<close>

theorem recoverDuration_stored_unless_falsy:
  "recoverDuration cau =
     (case cau of
        None \<Rightarrow> None
      | Some c \<Rightarrow>
          (case speakerDuration c of
             None \<Rightarrow> None
           | Some d \<Rightarrow> if d = Num 0 \<or> d = NaN then None else Some d))"
proof (cases cau)
  case None
  then show ?thesis by (simp add: recoverDuration_def)
next
  case (Some c)
  show ?thesis
  proof (cases "speakerDuration c")
    case None
    with Some show ?thesis by (simp add: recoverDuration_def)
  next
    case (Some d)
    with \<open>cau = Some c\<close> show ?thesis
      by (cases d) (simp_all add: recoverDuration_def)
  qed
qed

text \<open>The amended C2 at the default caucus, whose speaker duration is 60.\<close>

theorem recoverDuration_stored_unless_falsy_witness:
  "recoverDuration (Some (DEFAULT_CAUCUS \<lparr>remaining = Num 0\<rparr>)) = Some (Num 60)"
  using recoverDuration_stored_unless_falsy [of "Some (DEFAULT_CAUCUS \<lparr>remaining = Num 0\<rparr>)"]
  by (simp add: DEFAULT_CAUCUS_def DEFAULT_SPEAKER_TIME_SECONDS_value)



subsection \<open>Queueing a speaker\<close>

lemma recoverDuration_Some_iff:
  "recoverDuration cau = Some d \<longleftrightarrow>
     (\<exists>c. cau = Some c \<and> speakerDuration c = Some d \<and> truthy_number d)"
  by (auto simp: recoverDuration_def split: option.splits)

lemma truthy_number_iff: "truthy_number d \<longleftrightarrow> d \<noteq> Num 0 \<and> d \<noteq> NaN"
  by (cases d) simp_all

text \<open>
  C3: for every caucus and selection, \<open>setStance\<close> pushes onto the queue if and
  only if a non-zero duration is recovered from the caucus and a queue member is
  selected. The pushed entry has the selected member's text as \<open>who\<close>, the chosen
  stance, and the recovered duration in seconds: \<^verbatim>\<open>duration * 60\<close>, the rounded
  product of the numbers, when the recovered unit is \<open>Minutes\<close>, and
  the duration unchanged when it is \<open>Seconds\<close>. It writes that one entry or
  nothing.
\<close>

theorem setStance_pushes_iff_recoverable:
  "(setStance t st props qm \<noteq> [] \<longleftrightarrow>
      (\<exists>d. d \<noteq> Num 0 \<and> d \<noteq> NaN \<and> recoverDuration (caucus props) = Some d) \<and> qm \<noteq> None)
   \<and> (\<forall>d m. recoverDuration (caucus props) = Some d \<and> qm = Some m \<longrightarrow>
         setStance t st props qm =
           [PushSet ''queue''
              \<lparr> who = option_text m, stance = st,
                duration = (case recoverUnit t (caucus props) of
                              Minutes \<Rightarrow> js_times d (Num 60) | Seconds \<Rightarrow> d) \<rparr>])
   \<and> (setStance t st props qm = [] \<or> (\<exists>e. setStance t st props qm = [PushSet ''queue'' e]))"
proof (cases "recoverDuration (caucus props)")
  case None
  then show ?thesis by (simp add: setStance_def)
next
  case (Some d)
  then have d: "truthy_number d" by (auto simp: recoverDuration_Some_iff)
  then have d': "d \<noteq> Num 0" "d \<noteq> NaN" by (simp_all add: truthy_number_iff)
  show ?thesis
  proof (cases qm)
    case None
    with Some d show ?thesis by (simp add: setStance_def)
  next
    case (Some m)
    with \<open>recoverDuration (caucus props) = Some d\<close> d d' show ?thesis
      by (cases "recoverUnit t (caucus props)") (simp_all add: setStance_def)
  qed
qed

lemma example_caucus_recovered:
  "recoverDuration (Some (example_caucus (Num 2) Minutes)) = Some (Num 2)"
  "recoverUnit (\<lambda>u. True) (Some (example_caucus (Num 2) Minutes)) = Minutes"
  by (simp_all add: recoverDuration_def recoverUnit_def example_caucus_def)

text \<open>C3 at two minutes of speaking time with France selected: 120 seconds are queued.\<close>

theorem setStance_pushes_iff_recoverable_witness:
  "recoverDuration (Some (example_caucus (Num 2) Minutes)) = Some (Num 2)
   \<and> setStance (\<lambda>u. True) For
        \<lparr> caucus = Some (example_caucus (Num 2) Minutes), members = None \<rparr>
        (Some france_option) =
       [PushSet ''queue'' \<lparr> who = ''France'', stance = For, duration = Num 120 \<rparr>]"
  using setStance_pushes_iff_recoverable
          [of "\<lambda>u. True" For
              "\<lparr> caucus = Some (example_caucus (Num 2) Minutes), members = None \<rparr>"
              "Some france_option"]
  by (simp add: example_caucus_recovered france_option_def js_times_2_60)

text \<open>
  The same click at a stored \<^verbatim>\<open>8.2\<close> minutes queues \<^verbatim>\<open>491.99999999999994\<close>
  seconds, the rounded product, and at \<^verbatim>\<open>1e308\<close> minutes it queues \<^verbatim>\<open>Infinity\<close>.
\<close>

lemma setStance_rounds:
  "setStance (\<lambda>u. True) For
     \<lparr> caucus = Some (example_caucus (Num 8.2) Minutes), members = None \<rparr> (Some france_option)
   = [PushSet ''queue''
        \<lparr> who = ''France'', stance = For,
          duration = Num (8655355533852671 / 17592186044416) \<rparr>]"
proof -
  have "recoverDuration (Some (example_caucus (Num 8.2) Minutes)) = Some (Num 8.2)"
    and "recoverUnit (\<lambda>u. True) (Some (example_caucus (Num 8.2) Minutes)) = Minutes"
    by (simp_all add: recoverDuration_def recoverUnit_def example_caucus_def)
  then show ?thesis
    by (simp only: setStance_def Let_def Number.simps truthy_number.simps js_times_rounds
          QueuerProps.simps option.case france_option_def MemberOption.simps) simp
qed

lemma setStance_overflows:
  "setStance (\<lambda>u. True) For
     \<lparr> caucus = Some (example_caucus (Num (10 ^ 308)) Minutes), members = None \<rparr>
     (Some france_option)
   = [PushSet ''queue'' \<lparr> who = ''France'', stance = For, duration = PosInf \<rparr>]"
proof -
  have "recoverDuration (Some (example_caucus (Num (10 ^ 308)) Minutes)) = Some (Num (10 ^ 308))"
    and "recoverUnit (\<lambda>u. True) (Some (example_caucus (Num (10 ^ 308)) Minutes)) = Minutes"
    by (simp_all add: recoverDuration_def recoverUnit_def example_caucus_def)
  then show ?thesis
    by (simp only: setStance_def Let_def Number.simps truthy_number.simps js_times_overflows
          QueuerProps.simps option.case france_option_def MemberOption.simps) simp
qed

subsection \<open>The nation of the cookie\<close>

text \<open>
  What \<open>getNation\<close> does on every input. It returns a member only if the nation
  cookie is a non-empty string, the key \<open>getID\<close> gives for it is in the record,
  the member is the one stored there, and the token cookie is strictly equal to
  the member's \<open>authToken\<close>.
\<close>

lemma getNation_Some_only_if:
  assumes "getNation getID getCookie props = Inr (Some m)"
  shows "\<exists>ms n. members props = Some ms \<and> getCookie ''nation'' = Val n \<and> n \<noteq> []
           \<and> ms (getID ms n) = Some m
           \<and> strict_eq (getCookie ''authToken'') (authToken m)"
  using assms
  by (auto simp: getNation_def Let_def split: option.splits js.splits if_splits)

text \<open>It returns \<^verbatim>\<open>null\<close> without members, without a nation cookie, and on a token mismatch.\<close>

lemma getNation_null_cases:
  "members props = None \<Longrightarrow> getNation getID getCookie props = Inr None"
  "\<not> truthy_string (getCookie ''nation'') \<Longrightarrow> getNation getID getCookie props = Inr None"
  "members props = Some ms \<Longrightarrow> getCookie ''nation'' = Val n \<Longrightarrow> ms (getID ms n) = Some m \<Longrightarrow>
     \<not> strict_eq (getCookie ''authToken'') (authToken m) \<Longrightarrow>
     getNation getID getCookie props = Inr None"
  by (auto simp: getNation_def Let_def split: option.splits js.splits if_splits)

text \<open>
  It throws exactly when there is a members record, the nation cookie is a
  non-empty string, and the key \<open>getID\<close> gives for it is not in the record: no
  test stands between the lookup and the read of \<^verbatim>\<open>.authToken\<close>.
\<close>

lemma getNation_fails_iff:
  "getNation getID getCookie props = Inl TypeError \<longleftrightarrow>
     (\<exists>ms n. members props = Some ms \<and> getCookie ''nation'' = Val n \<and> n \<noteq> []
         \<and> ms (getID ms n) = None)"
  by (auto simp: getNation_def Let_def split: option.splits js.splits if_splits)

lemma getNation_member_example:
  "getNation (\<lambda>ms n. ''m1'') both_cookies
     \<lparr> caucus = None, members = Some [''m1'' \<mapsto> france_member] \<rparr> = Inr (Some france_member)"
  by (simp add: getNation_def both_cookies_def france_member_def)

text \<open>
  C4 says that \<open>getNation\<close> returns a member only when the nation cookie names it
  and the token cookie equals its token, and \<^verbatim>\<open>null\<close> in every other case. The
  first half is \<open>getNation_Some_only_if\<close>. The second half fails: with both
  cookies set and a members record that is empty, so that the cookie names no
  member of it, the call returns neither a member nor \<^verbatim>\<open>null\<close>; it throws,
  for every key \<open>getID\<close> may answer, none being a property of the record.
\<close>

theorem getNation_unknown_nation_not_null:
  "getNation getID both_cookies \<lparr> caucus = None, members = Some Map.empty \<rparr> \<noteq> Inr None
   \<and> getNation getID both_cookies \<lparr> caucus = None, members = Some Map.empty \<rparr> = Inl TypeError"
  by (simp add: getNation_def both_cookies_def)

text \<open>
  C5 says that \<open>getNation\<close> evaluates without failure on every members record and
  every cookie state, \<^verbatim>\<open>members[id]\<close> being dereferenced only when the member
  exists. It is dereferenced unconditionally: with the nation cookie set and an
  empty members record the evaluation ends in a \<^verbatim>\<open>TypeError\<close>, for every
  key \<open>getID\<close> may answer, none being a property of the record.
\<close>

theorem getNation_throws_on_empty_members:
  "getNation getID nation_cookie_only \<lparr> caucus = None, members = Some Map.empty \<rparr>
     = Inl TypeError"
  by (simp add: getNation_def nation_cookie_only_def)

subsection \<open>The committees of the signed-in user\<close>

text \<open>
  C6: after an auth state change with a signed-in user, when the query for the
  user's committees has no value, the \<open>committees\<close> state is the empty record;
  whatever the query returns, it is a record, not \<^verbatim>\<open>undefined\<close> or \<^verbatim>\<open>null\<close>.
\<close>

theorem authStateChangedCallback_committees_record:
  "(query (uid x) = None \<longrightarrow>
      committees (authStateChangedCallback query (Some x) s) = Some Map.empty)
   \<and> committees (authStateChangedCallback query (Some x) s) \<noteq> None"
  by (simp add: authStateChangedCallback_def)

text \<open>C6 from the initial state, whose \<open>committees\<close> is undefined, with nothing in the database.\<close>

theorem authStateChangedCallback_committees_record_witness:
  "committees (initial_LoginState :: unit LoginState) = None
   \<and> committees (authStateChangedCallback (\<lambda>u. None) (Some \<lparr>uid = ''u1''\<rparr>)
                   (initial_LoginState :: unit LoginState)) = Some Map.empty"
  using authStateChangedCallback_committees_record
          [of "\<lambda>u. None" "\<lparr>uid = ''u1''\<rparr>" "initial_LoginState :: unit LoginState"]
  by (simp add: initial_LoginState_def)

subsection \<open>The default caucus\<close>

text \<open>
  C7: the default caucus is the reference record: name \<open>untitled caucus\<close>, empty
  topic, status \<open>Open\<close>, a speaker timer with 60 seconds remaining (the default
  speaker time, 1 * 60), a caucus timer with 600 seconds remaining (the default
  caucus time, 10 * 60), speaker duration 60, speaker unit \<open>Seconds\<close>, a queue
  that is not public, and empty queue and history records.
\<close>

theorem DEFAULT_CAUCUS_reference:
  "DEFAULT_SPEAKER_TIME_SECONDS = Num 60
   \<and> DEFAULT_CAUCUS_TIME_SECONDS = Num 600
   \<and> DEFAULT_CAUCUS DEFAULT_TIMER =
       \<lparr> name = ''untitled caucus'', topic = [], status = Open,
         speakerTimer = DEFAULT_TIMER\<lparr>remaining := Num 60\<rparr>,
         speakerDuration = Some (Num 60), speakerUnit = Some Seconds,
         caucusTimer = DEFAULT_TIMER\<lparr>remaining := Num 600\<rparr>,
         queueIsPublic = Some False, speaking = None,
         queue = Some Map.empty, history = Some Map.empty \<rparr>
   \<and> remaining (speakerTimer (DEFAULT_CAUCUS DEFAULT_TIMER)) = Num 60
   \<and> remaining (caucusTimer (DEFAULT_CAUCUS DEFAULT_TIMER)) = Num 600"
  by (simp add: DEFAULT_CAUCUS_def DEFAULT_SPEAKER_TIME_SECONDS_value
        DEFAULT_CAUCUS_TIME_SECONDS_value)

subsection \<open>The caucus that is not there\<close>

text \<open>
  C8: when loading has finished and \<open>recoverCaucus\<close> finds no caucus of the
  requested id in the committee, \<open>render\<close> returns the not-found view for that
  id; in every other case (still loading, or the caucus is found) it returns the
  caucus view.
\<close>

theorem render_NotFound_iff:
  "(\<not> loading st \<and> recoverCaucus (committee st) caucusID = None \<longrightarrow>
      render recoverCaucus st caucusID = NotFound ''caucus'' caucusID)
   \<and> (loading st \<or> recoverCaucus (committee st) caucusID \<noteq> None \<longrightarrow>
      render recoverCaucus st caucusID = renderCaucus (recoverCaucus (committee st) caucusID))"
  by (auto simp: render_def Let_def)

text \<open>C8 when nothing is found after loading, while loading, and when the caucus is found.\<close>

theorem render_NotFound_iff_witness:
  "render (\<lambda>c i. None) (example_state False) ''c1'' = (NotFound ''caucus'' ''c1'' :: unit view)
   \<and> render (\<lambda>c i. None) (example_state True) ''c1'' = (renderCaucus None :: unit view)
   \<and> render (\<lambda>c i. c)
        ((example_state False)\<lparr>committee := Some (example_caucus (Num 2) Minutes)\<rparr>) ''c1''
       = renderCaucus (Some (example_caucus (Num 2) Minutes))"
  using render_NotFound_iff
          [of "example_state False" "\<lambda>c i. None :: unit CaucusData option" "''c1''"]
        render_NotFound_iff
          [of "example_state True" "\<lambda>c i. None :: unit CaucusData option" "''c1''"]
        render_NotFound_iff
          [of "(example_state False)\<lparr>committee := Some (example_caucus (Num 2) Minutes)\<rparr>"
              "\<lambda>c i. c" "''c1''"]
  by (simp add: example_state_def)

subsection \<open>Flag names\<close>

text \<open>
  C10: \<open>parseFlagName\<close> is total: it returns the lowercased name when the name is
  among the texts of the country options, and \<open>fm\<close> for every other name.
\<close>

theorem parseFlagName_total:
  "parseFlagName COUNTRY_OPTIONS nm =
     (if nm \<in> set (map option_text COUNTRY_OPTIONS) then toLowerCase nm else ''fm'')"
  by (simp add: parseFlagName_def FLAG_NAME_SET_def)

lemma toLowerCase_France: "toLowerCase ''France'' = ''france''"
  by code_simp

text \<open>C10 over a table of one country, at its name and at a name that is not in the table.\<close>

theorem parseFlagName_total_witness:
  "parseFlagName [france_option] ''France'' = ''france''
   \<and> parseFlagName [france_option] ''Atlantis'' = ''fm''"
  using parseFlagName_total [of "[france_option]" "''France''"]
        parseFlagName_total [of "[france_option]" "''Atlantis''"]
  by (simp add: france_option_def toLowerCase_France)

end
